theory Spec2Isabelle
  imports Complex_Main
begin

section \<open>Array elements\<close>

text \<open>
  The notebook \<^verbatim>\<open>datasets/3dep-lidar/3dep-lidar-cog-example.ipynb\<close> works on NumPy
  arrays. An element of a floating-point array is a finite number, one of the two
  infinities, or not-a-number. Arithmetic on finite floats is taken as exact (a finite
  sample is a rational number); the rounding of float arithmetic is not represented.
  What is represented is the special values that a division by zero produces, the fact
  that every ordered comparison with not-a-number is false, and, further down, the
  element type of an array and the rounding of an integer that is converted to float64.
\<close>

datatype fl = Fin rat | PInf | NInf | NaN

fun fl_lt :: "fl \<Rightarrow> fl \<Rightarrow> bool" where
  "fl_lt NaN y = False"
| "fl_lt x NaN = False"
| "fl_lt (Fin a) (Fin b) = (a < b)"
| "fl_lt x NInf = False"
| "fl_lt PInf y = False"
| "fl_lt NInf y = True"
| "fl_lt (Fin a) PInf = True"

fun fl_le :: "fl \<Rightarrow> fl \<Rightarrow> bool" where
  "fl_le NaN y = False"
| "fl_le x NaN = False"
| "fl_le (Fin a) (Fin b) = (a \<le> b)"
| "fl_le NInf y = True"
| "fl_le x PInf = True"
| "fl_le x NInf = False"
| "fl_le PInf y = False"

text \<open>\<^verbatim>\<open>a != b\<close> on floats: true whenever either side is not-a-number.\<close>

fun fl_ne :: "fl \<Rightarrow> fl \<Rightarrow> bool" where
  "fl_ne NaN y = True"
| "fl_ne x NaN = True"
| "fl_ne x y = (x \<noteq> y)"

fun fl_add :: "fl \<Rightarrow> fl \<Rightarrow> fl" where
  "fl_add NaN y = NaN"
| "fl_add x NaN = NaN"
| "fl_add (Fin a) (Fin b) = Fin (a + b)"
| "fl_add PInf NInf = NaN"
| "fl_add NInf PInf = NaN"
| "fl_add PInf y = PInf"
| "fl_add NInf y = NInf"
| "fl_add x PInf = PInf"
| "fl_add x NInf = NInf"

fun fl_neg :: "fl \<Rightarrow> fl" where
  "fl_neg (Fin a) = Fin (- a)"
| "fl_neg PInf = NInf"
| "fl_neg NInf = PInf"
| "fl_neg NaN = NaN"

definition fl_sub :: "fl \<Rightarrow> fl \<Rightarrow> fl" where
  "fl_sub x y = fl_add x (fl_neg y)"

fun fl_abs :: "fl \<Rightarrow> fl" where
  "fl_abs (Fin a) = Fin \<bar>a\<bar>"
| "fl_abs PInf = PInf"
| "fl_abs NInf = PInf"
| "fl_abs NaN = NaN"

text \<open>The sign of a non-NaN element: \<open>-1\<close>, \<open>0\<close> or \<open>1\<close>.\<close>

fun fl_sgn :: "fl \<Rightarrow> int" where
  "fl_sgn (Fin a) = (if a < 0 then - 1 else if a = 0 then 0 else 1)"
| "fl_sgn PInf = 1"
| "fl_sgn NInf = - 1"
| "fl_sgn NaN = 0"

definition fl_of_sgn :: "int \<Rightarrow> fl" where
  "fl_of_sgn s = (if s < 0 then NInf else if s = 0 then NaN else PInf)"

fun fl_mul :: "fl \<Rightarrow> fl \<Rightarrow> fl" where
  "fl_mul NaN y = NaN"
| "fl_mul x NaN = NaN"
| "fl_mul (Fin a) (Fin b) = Fin (a * b)"
| "fl_mul x y = fl_of_sgn (fl_sgn x * fl_sgn y)"

text \<open>
  NumPy's true division does not raise on a zero divisor: it warns and yields an infinity
  of the dividend's sign, or not-a-number for \<open>0 / 0\<close>. Zeros are taken as positive, which
  is what a difference \<open>x - x\<close> of finite numbers is.
\<close>

fun fl_div :: "fl \<Rightarrow> fl \<Rightarrow> fl" where
  "fl_div NaN y = NaN"
| "fl_div x NaN = NaN"
| "fl_div (Fin a) (Fin b) = (if b = 0 then fl_of_sgn (fl_sgn (Fin a)) else Fin (a / b))"
| "fl_div (Fin a) y = Fin 0"
| "fl_div x (Fin b) = (if b < 0 then fl_neg x else x)"
| "fl_div x y = NaN"

section \<open>Integers converted to float64\<close>

text \<open>
  A float64 has a significand of 53 bits. An integer of more bits is rounded to the
  nearest float64, a tie going to the even significand. \<open>bitlen a\<close> is the number of binary
  digits of a positive \<open>a\<close>; the integers of an array have at most 64 of them, so the
  conversion never overflows. The result is given as the integer that the float64 equals.
\<close>

function bitlen :: "int \<Rightarrow> nat" where
  "bitlen a = (if a \<le> 0 then 0 else Suc (bitlen (a div 2)))"
  by pat_completeness auto
termination
  by (relation "measure nat") auto

declare bitlen.simps [simp del]

definition f64_of_int :: "int \<Rightarrow> int" where
  "f64_of_int n =
     (let a = \<bar>n\<bar>;
          e = bitlen a - 53;
          q = a div 2 ^ e;
          r = a mod 2 ^ e;
          q' = (if 2 ^ e < 2 * r \<or> (2 * r = 2 ^ e \<and> odd q) then q + 1 else q)
      in sgn n * (q' * 2 ^ e))"

section \<open>Rasters and the element-wise NumPy calls of the cells\<close>

text \<open>
  A raster is what \<^verbatim>\<open>rasterio.open(...).read().squeeze()\<close> returns for a one-band file:
  a two-dimensional grid, here a list of rows. Its element type is the one of the file:
  an integer type (the counts of the returns raster, the codes of the classification
  raster) or a floating-point type (elevations). \<open>IntArr\<close> is an array of any integer
  type, \<open>FltArr\<close> one of any floating-point type.
\<close>

type_synonym raster = "fl list list"
type_synonym int_raster = "int list list"
type_synonym mask = "bool list list"

datatype ndarray = IntArr int_raster | FltArr raster

text \<open>
  \<^verbatim>\<open>ds < c\<close>, \<^verbatim>\<open>ds >= c\<close> and \<^verbatim>\<open>ds > c\<close> against a Python integer \<open>c\<close>: a boolean
  grid. Integers are compared as integers, floats as floats.
\<close>

fun np_less :: "ndarray \<Rightarrow> int \<Rightarrow> mask" where
  "np_less (IntArr a) c = map (map (\<lambda>n. n < c)) a"
| "np_less (FltArr a) c = map (map (\<lambda>x. fl_lt x (Fin (of_int c)))) a"

fun np_greater_equal :: "ndarray \<Rightarrow> int \<Rightarrow> mask" where
  "np_greater_equal (IntArr a) c = map (map (\<lambda>n. c \<le> n)) a"
| "np_greater_equal (FltArr a) c = map (map (\<lambda>x. fl_le (Fin (of_int c)) x)) a"

fun np_greater :: "ndarray \<Rightarrow> int \<Rightarrow> mask" where
  "np_greater (IntArr a) c = map (map (\<lambda>n. c < n)) a"
| "np_greater (FltArr a) c = map (map (\<lambda>x. fl_lt (Fin (of_int c)) x)) a"

text \<open>
  \<^verbatim>\<open>np.putmask(a, mask, v)\<close> with a Python integer \<open>v\<close> and a mask of the shape of \<open>a\<close>:
  the elements of \<open>a\<close> under a true mask entry become \<open>v\<close>, in the element type of \<open>a\<close>
  (the cells pass 0 and 7, which every element type holds). The call overwrites \<open>a\<close>;
  this function gives the contents of \<open>a\<close> after the call.
\<close>

fun np_putmask :: "ndarray \<Rightarrow> mask \<Rightarrow> int \<Rightarrow> ndarray" where
  "np_putmask (IntArr a) m v = IntArr (map2 (map2 (\<lambda>x b. if b then v else x)) a m)"
| "np_putmask (FltArr a) m v = FltArr (map2 (map2 (\<lambda>x b. if b then Fin (of_int v) else x)) a m)"

text \<open>
  \<^verbatim>\<open>np.where(cond, x, y)\<close> with a float scalar \<open>y\<close> (the cells pass \<^verbatim>\<open>np.nan\<close>) and
  \<open>cond\<close> of the shape of \<open>x\<close>: a new array that holds \<open>x\<close> where \<open>cond\<close> is true and \<open>y\<close>
  elsewhere. Its element type is the common type of \<open>x\<close> and the float \<open>y\<close>: a float array
  keeps its values, an integer array becomes a float64 array, each integer converted.
\<close>

fun np_where :: "mask \<Rightarrow> ndarray \<Rightarrow> fl \<Rightarrow> ndarray" where
  "np_where c (IntArr x) y =
     FltArr (map2 (map2 (\<lambda>b n. if b then Fin (of_int (f64_of_int n)) else y)) c x)"
| "np_where c (FltArr x) y = FltArr (map2 (map2 (\<lambda>b e. if b then e else y)) c x)"

subsection \<open>The three treatments of a raster before display\<close>

text \<open>
  The returns cell: \<^verbatim>\<open>np.putmask(ds, ds < 1, 0); np.putmask(ds, ds >= 7, 7)\<close>.
  The second mask is computed from the array as the first call left it.
\<close>

definition clamp_low_high :: "ndarray \<Rightarrow> ndarray" where
  "clamp_low_high ds =
     (let ds1 = np_putmask ds (np_less ds 1) 0
      in np_putmask ds1 (np_greater_equal ds1 7) 7)"

text \<open>
  The classification, DSM, DTM, native DTM and point-source-id cells:
  \<^verbatim>\<open>ds = np.where(ds > 0, ds, np.nan)\<close>.
\<close>

definition mask_non_positive :: "ndarray \<Rightarrow> ndarray" where
  "mask_non_positive ds = np_where (np_greater ds 0) ds NaN"

text \<open>
  The intensity and height-above-ground cells display the array as it was read. The
  three treatments are the policies of the bucketizer; \<open>ClampLowHigh\<close> has the cuts 1 and 7
  of the returns cell.
\<close>

datatype policy = ClampLowHigh | MaskNonPositive | Identity

fun bucketize :: "policy \<Rightarrow> ndarray \<Rightarrow> ndarray" where
  "bucketize ClampLowHigh ds = clamp_low_high ds"
| "bucketize MaskNonPositive ds = mask_non_positive ds"
| "bucketize Identity ds = ds"

section \<open>The colormap cell\<close>

datatype error = ValueError | IndexError | NameError

type_synonym interval = "rat \<times> rat"
type_synonym rgba8 = "int \<times> int \<times> int \<times> int"
type_synonym rgba = "fl \<times> fl \<times> fl \<times> fl"
type_synonym pair = "interval \<times> rgba8"

text \<open>The list \<open>pairs\<close> that the cell itself starts from.\<close>

definition hag_pairs :: "pair list" where
  "hag_pairs =
     [((- 900, 1), (0, 0, 0, 0)),
      ((1, 2), (205, 224, 241, 255)),
      ((2, 3), (175, 209, 231, 255)),
      ((3, 4), (137, 190, 220, 255)),
      ((4, 5), (96, 166, 210, 255)),
      ((5, 6), (34, 114, 181, 255)),
      ((6, 7), (10, 84, 158, 255)),
      ((7, 100), (8, 48, 107, 255))]"

text \<open>
  \<^verbatim>\<open>intervals, colors = zip(*pairs)\<close>: the transposed list has one tuple per component
  of a pair, two for a list that is not empty and none for the empty list, where the
  unpacking into two names raises \<^verbatim>\<open>ValueError\<close>.
\<close>

definition unzip_pairs :: "pair list \<Rightarrow> error + (interval list \<times> rgba8 list)" where
  "unzip_pairs ps = (if ps = [] then Inl ValueError else Inr (map fst ps, map snd ps))"

text \<open>
  \<^verbatim>\<open>a.min()\<close> and \<^verbatim>\<open>a.max()\<close> of a one-dimensional array: not-a-number if any
  element is, and \<^verbatim>\<open>ValueError\<close> on an array with no element.
\<close>

definition fl_min :: "fl \<Rightarrow> fl \<Rightarrow> fl" where
  "fl_min x y = (if x = NaN \<or> y = NaN then NaN else if fl_lt y x then y else x)"

definition fl_max :: "fl \<Rightarrow> fl \<Rightarrow> fl" where
  "fl_max x y = (if x = NaN \<or> y = NaN then NaN else if fl_lt x y then y else x)"

fun np_min :: "fl list \<Rightarrow> error + fl" where
  "np_min [] = Inl ValueError"
| "np_min (x # xs) = Inr (fold fl_min xs x)"

fun np_max :: "fl list \<Rightarrow> error + fl" where
  "np_max [] = Inl ValueError"
| "np_max (x # xs) = Inr (fold fl_max xs x)"

text \<open>
  The control positions:
  \<^verbatim>\<open>nodes = np.array([x[1] for x in intervals]).astype(float)\<close>,
  \<^verbatim>\<open>nodes -= np.abs(nodes.min())\<close>, \<^verbatim>\<open>nodes /= nodes.max()\<close>.
  \<^verbatim>\<open>x[1]\<close> is the second component of an interval, and the maximum is the one of the
  array after the subtraction.
\<close>

definition build_nodes :: "interval list \<Rightarrow> error + fl list" where
  "build_nodes intervals =
     (let nodes = map (\<lambda>x. Fin (snd x)) intervals
      in case np_min nodes of
           Inl e \<Rightarrow> Inl e
         | Inr m \<Rightarrow>
             (let nodes1 = map (\<lambda>x. fl_sub x (fl_abs m)) nodes
              in case np_max nodes1 of
                   Inl e \<Rightarrow> Inl e
                 | Inr M \<Rightarrow> Inr (map (\<lambda>x. fl_div x M) nodes1)))"

text \<open>\<^verbatim>\<open>colors = [np.asarray(c) / 255 for c in colors]\<close>.\<close>

definition rescale_color :: "rgba8 \<Rightarrow> rgba" where
  "rescale_color c =
     (case c of (r, g, b, a) \<Rightarrow>
        (Fin (of_int r / 255), Fin (of_int g / 255), Fin (of_int b / 255), Fin (of_int a / 255)))"

subsection \<open>The colormap object\<close>

text \<open>
  \<^verbatim>\<open>matplotlib.colors.LinearSegmentedColormap.from_list(name, list(zip(nodes, colors)))\<close>
  is a call into Matplotlib, whose code is not part of the notebook. The notebook's
  metadata name Python 3.8.10, for which Matplotlib 3.7 is the last release. The model
  below is the one of that release (the behaviour is the same in every release up to
  3.10), with the default \<open>N = 256\<close> table entries and \<open>gamma = 1\<close>:
  \<^item> \<open>from_list\<close> reads the first point (\<^verbatim>\<open>IndexError\<close> on an empty list) and converts
    every color with \<open>to_rgba\<close>, which raises \<^verbatim>\<open>ValueError\<close> for a channel below 0 or
    above 1; it does not look at the positions;
  \<^item> the lookup table is made at the first call of the colormap, and making it raises
    \<^verbatim>\<open>ValueError\<close> unless the positions start with 0, end with 1 and never decrease;
  \<^item> table entry \<open>i\<close> is the piecewise-linear interpolation of the control points at
    \<open>i / 255\<close>, clipped to \<open>[0, 1]\<close>; the first and the last entry are the first and
    the last color;
  \<^item> a call with a float \<open>x\<close> reads entry \<open>trunc (256 x)\<close> (entry 255 for \<open>x = 1\<close>), the
    first entry below 0, the last entry from 1 on, and the transparent "bad" color for
    not-a-number.
  A later release that checks the positions when the colormap is constructed raises the
  same error one step earlier, in \<open>from_list\<close>.
\<close>

record colormap =
  name :: string
  vals :: "fl list"
  cols :: "rgba list"

definition channel_ok :: "fl \<Rightarrow> bool" where
  "channel_ok c = (\<not> fl_lt c (Fin 0) \<and> \<not> fl_lt (Fin 1) c)"

definition to_rgba_ok :: "rgba \<Rightarrow> bool" where
  "to_rgba_ok c =
     (case c of (r, g, b, a) \<Rightarrow> channel_ok r \<and> channel_ok g \<and> channel_ok b \<and> channel_ok a)"

definition from_list :: "string \<Rightarrow> (fl \<times> rgba) list \<Rightarrow> error + colormap" where
  "from_list nm pts =
     (if pts = [] then Inl IndexError
      else if list_all to_rgba_ok (map snd pts)
      then Inr \<lparr>name = nm, vals = map fst pts, cols = map snd pts\<rparr>
      else Inl ValueError)"

text \<open>The whole cell, from \<open>pairs\<close> to \<open>cmap\<close>.\<close>

definition build_colormap :: "pair list \<Rightarrow> error + colormap" where
  "build_colormap ps =
     (case unzip_pairs ps of
        Inl e \<Rightarrow> Inl e
      | Inr (intervals, colors) \<Rightarrow>
          (case build_nodes intervals of
             Inl e \<Rightarrow> Inl e
           | Inr nodes \<Rightarrow> from_list ''hag'' (zip nodes (map rescale_color colors))))"

subsection \<open>Evaluating a colormap\<close>

text \<open>\<^verbatim>\<open>(np.diff(x) < 0).any()\<close>\<close>

fun any_decrease :: "fl list \<Rightarrow> bool" where
  "any_decrease (a # b # xs) = (fl_lt (fl_sub b a) (Fin 0) \<or> any_decrease (b # xs))"
| "any_decrease xs = False"

definition points_ok :: "fl list \<Rightarrow> bool" where
  "points_ok x =
     (x \<noteq> [] \<and> \<not> fl_ne (hd x) (Fin 0) \<and> \<not> fl_ne (last x) (Fin 1) \<and> \<not> any_decrease x)"

text \<open>
  \<^verbatim>\<open>np.searchsorted(x, v)\<close> on a non-decreasing array: the index of the first element
  that is not below \<open>v\<close>.
\<close>

definition searchsorted :: "fl list \<Rightarrow> fl \<Rightarrow> nat" where
  "searchsorted x v = length (takeWhile (\<lambda>e. fl_lt e v) x)"

definition fl_clip :: "fl \<Rightarrow> fl" where
  "fl_clip v = (if fl_lt v (Fin 0) then Fin 0 else if fl_lt (Fin 1) v then Fin 1 else v)"

text \<open>
  Entry \<open>i\<close> of the table of one channel with values \<open>y\<close> at the positions \<open>x\<close>; the
  positions are scaled by \<open>N - 1 = 255\<close> and entry \<open>i\<close> sits at \<open>i\<close> on that scale.
  The table is only made after the check of the positions has passed. Then the first
  position is 0 and the last is 1, so for \<open>0 < i < 255\<close> the index \<open>ind\<close> is at least 1
  and below the number of points, and every list access below is in range.
\<close>

definition lut_entry :: "fl list \<Rightarrow> fl list \<Rightarrow> nat \<Rightarrow> fl" where
  "lut_entry x y i =
     fl_clip
       (if i = 0 then hd y
        else if 255 \<le> i then last y
        else
          (let xs = map (\<lambda>e. fl_mul e (Fin 255)) x;
               v = Fin (of_nat i);
               ind = searchsorted xs v;
               distance = fl_div (fl_sub v (xs ! (ind - 1))) (fl_sub (xs ! ind) (xs ! (ind - 1)))
           in fl_add (fl_mul distance (fl_sub (y ! ind) (y ! (ind - 1)))) (y ! (ind - 1))))"

definition lut_row :: "colormap \<Rightarrow> nat \<Rightarrow> rgba" where
  "lut_row cm i =
     (lut_entry (vals cm) (map fst (cols cm)) i,
      lut_entry (vals cm) (map (fst \<circ> snd) (cols cm)) i,
      lut_entry (vals cm) (map (fst \<circ> snd \<circ> snd) (cols cm)) i,
      lut_entry (vals cm) (map (snd \<circ> snd \<circ> snd) (cols cm)) i)"

definition rgba_bad :: rgba where
  "rgba_bad = (Fin 0, Fin 0, Fin 0, Fin 0)"

text \<open>\<^verbatim>\<open>cmap(x)\<close> for one float \<open>x\<close>.\<close>

definition cmap_call :: "colormap \<Rightarrow> fl \<Rightarrow> error + rgba" where
  "cmap_call cm x =
     (if \<not> points_ok (vals cm) then Inl ValueError
      else
        (let xa0 = fl_mul x (Fin 256);
             xa = (if xa0 = Fin 256 then Fin 255 else xa0)
         in Inr (if xa = NaN then rgba_bad
                 else if fl_lt xa (Fin 0) then lut_row cm 0
                 else if fl_le (Fin 256) xa then lut_row cm 255
                 else (case xa of Fin q \<Rightarrow> lut_row cm (nat \<lfloor>q\<rfloor>) | _ \<Rightarrow> rgba_bad))))"

section \<open>The notebook's variables and arrays\<close>

text \<open>
  NumPy arrays are objects that a call can overwrite, so the arrays live in a store and
  the variable \<open>ds\<close> holds the identity of one of them. The other variables that the
  cells read or assign are \<open>pairs\<close> and \<open>cmap\<close>. Reading an unbound name raises
  \<^verbatim>\<open>NameError\<close>.
\<close>

record notebook =
  heap :: "nat \<Rightarrow> ndarray option"
  next_id :: nat
  ds :: "nat option"
  pairs :: "pair list"
  cmap :: "colormap option"

text \<open>\<^verbatim>\<open>ds = rasterio.open(...).read().squeeze()\<close>, given what the file holds.\<close>

definition read_raster :: "ndarray \<Rightarrow> notebook \<Rightarrow> notebook" where
  "read_raster r st =
     st\<lparr>heap := (heap st)(next_id st \<mapsto> r), next_id := Suc (next_id st), ds := Some (next_id st)\<rparr>"

text \<open>\<^verbatim>\<open>np.putmask(ds, cond(ds), v)\<close>: the array that \<open>ds\<close> names is overwritten.\<close>

definition putmask_ds :: "(ndarray \<Rightarrow> mask) \<Rightarrow> int \<Rightarrow> notebook \<Rightarrow> error + notebook" where
  "putmask_ds cond v st =
     (case ds st of
        None \<Rightarrow> Inl NameError
      | Some a \<Rightarrow>
          (case heap st a of
             None \<Rightarrow> Inl NameError
           | Some r \<Rightarrow> Inr (st\<lparr>heap := (heap st)(a \<mapsto> np_putmask r (cond r) v)\<rparr>)))"

definition returns_cell :: "notebook \<Rightarrow> error + notebook" where
  "returns_cell st =
     (case putmask_ds (\<lambda>r. np_less r 1) 0 st of
        Inl e \<Rightarrow> Inl e
      | Inr st1 \<Rightarrow> putmask_ds (\<lambda>r. np_greater_equal r 7) 7 st1)"

text \<open>
  \<^verbatim>\<open>ds = np.where(ds > 0, ds, np.nan)\<close>: a new array is made and \<open>ds\<close> is bound to it;
  the array that \<open>ds\<close> named before stays in the store as it was.
\<close>

definition where_cell :: "notebook \<Rightarrow> error + notebook" where
  "where_cell st =
     (case ds st of
        None \<Rightarrow> Inl NameError
      | Some a \<Rightarrow>
          (case heap st a of
             None \<Rightarrow> Inl NameError
           | Some r \<Rightarrow>
               Inr (st\<lparr>heap := (heap st)(next_id st \<mapsto> np_where (np_greater r 0) r NaN),
                        next_id := Suc (next_id st),
                        ds := Some (next_id st)\<rparr>)))"

fun run_bucketize :: "policy \<Rightarrow> notebook \<Rightarrow> error + notebook" where
  "run_bucketize ClampLowHigh st = returns_cell st"
| "run_bucketize MaskNonPositive st = where_cell st"
| "run_bucketize Identity st = Inr st"

definition colormap_cell :: "notebook \<Rightarrow> error + notebook" where
  "colormap_cell st =
     (case build_colormap (pairs st) of
        Inl e \<Rightarrow> Inl e
      | Inr cm \<Rightarrow> Inr (st\<lparr>cmap := Some cm\<rparr>))"

section \<open>What the specification says, in its own words\<close>

text \<open>
  The clamp of the bucketizer: a value below 1 becomes 0, a value of at least 7 becomes 7,
  a value in \<open>[1, 7)\<close> stays.
\<close>

definition clamp_spec :: "'a::linordered_idom \<Rightarrow> 'a" where
  "clamp_spec x = (if x < 1 then 0 else if 7 \<le> x then 7 else x)"

text \<open>The min-max normalization \<open>n_i = (b_i - min b) / (max b - min b)\<close>.\<close>

definition normalize_spec :: "rat list \<Rightarrow> rat list" where
  "normalize_spec bs = map (\<lambda>b. (b - Min (set bs)) / (Max (set bs) - Min (set bs))) bs"

text \<open>
  An input as the specification wants it: every range has \<open>low < high\<close>, the ranges are in
  ascending order and do not overlap, and every color channel is in \<open>[0, 255]\<close>.
\<close>

fun ranges_ascending :: "interval list \<Rightarrow> bool" where
  "ranges_ascending (a # b # xs) = (snd a \<le> fst b \<and> ranges_ascending (b # xs))"
| "ranges_ascending xs = True"

definition color_ok :: "rgba8 \<Rightarrow> bool" where
  "color_ok c =
     (case c of (r, g, b, a) \<Rightarrow>
        0 \<le> r \<and> r \<le> 255 \<and> 0 \<le> g \<and> g \<le> 255 \<and> 0 \<le> b \<and> b \<le> 255 \<and> 0 \<le> a \<and> a \<le> 255)"

definition valid_pairs :: "pair list \<Rightarrow> bool" where
  "valid_pairs ps =
     (list_all (\<lambda>p. fst (fst p) < snd (fst p)) ps \<and> ranges_ascending (map fst ps)
      \<and> list_all color_ok (map snd ps))"

section \<open>Closed forms of what the cells compute\<close>

text \<open>What the two \<open>np.putmask\<close> calls together do to one array element.\<close>

definition clamp_elem :: "fl \<Rightarrow> fl" where
  "clamp_elem x = (if fl_lt x (Fin 1) then Fin 0 else if fl_le (Fin 7) x then Fin 7 else x)"

text \<open>
  The control position that the cell computes for an upper bound \<open>u\<close> among the upper
  bounds \<open>us\<close>, written as one formula.
\<close>

definition node_of :: "rat list \<Rightarrow> rat \<Rightarrow> fl" where
  "node_of us u = fl_div (Fin (u - \<bar>Min (set us)\<bar>)) (Fin (Max (set us) - \<bar>Min (set us)\<bar>))"

text \<open>A notebook before any raster is read, and the array behind an address after a run.\<close>

definition fresh_notebook :: "pair list \<Rightarrow> notebook" where
  "fresh_notebook ps = \<lparr>heap = Map.empty, next_id = 0, ds = None, pairs = ps, cmap = None\<rparr>"

definition raster_at :: "nat \<Rightarrow> error + notebook \<Rightarrow> ndarray option" where
  "raster_at a res = (case res of Inl e \<Rightarrow> None | Inr st \<Rightarrow> heap st a)"

section \<open>Element-wise calls as maps\<close>

lemma map2_same_right: "map2 f xs (map g xs) = map (\<lambda>x. f x (g x)) xs"
  by (induction xs) simp_all

lemma map2_same_left: "map2 f (map g xs) xs = map (\<lambda>x. f (g x) x) xs"
  by (induction xs) simp_all

lemma putmask_less_flt:
  "np_putmask (FltArr a) (np_less (FltArr a) c) v
     = FltArr (map (map (\<lambda>x. if fl_lt x (Fin (of_int c)) then Fin (of_int v) else x)) a)"
  by (simp add: map2_same_right)

lemma putmask_greater_equal_flt:
  "np_putmask (FltArr a) (np_greater_equal (FltArr a) c) v
     = FltArr (map (map (\<lambda>x. if fl_le (Fin (of_int c)) x then Fin (of_int v) else x)) a)"
  by (simp add: map2_same_right)

lemma putmask_less_int:
  "np_putmask (IntArr a) (np_less (IntArr a) c) v
     = IntArr (map (map (\<lambda>n. if n < c then v else n)) a)"
  by (simp add: map2_same_right)

lemma putmask_greater_equal_int:
  "np_putmask (IntArr a) (np_greater_equal (IntArr a) c) v
     = IntArr (map (map (\<lambda>n. if c \<le> n then v else n)) a)"
  by (simp add: map2_same_right)

lemma clamp_low_high_flt: "clamp_low_high (FltArr a) = FltArr (map (map clamp_elem) a)"
proof -
  have "clamp_low_high (FltArr a)
      = FltArr (map (map (\<lambda>x. if fl_le (Fin (of_int 7)) x then Fin (of_int 7) else x))
          (map (map (\<lambda>x. if fl_lt x (Fin (of_int 1)) then Fin (of_int 0) else x)) a))"
    by (simp only: clamp_low_high_def Let_def putmask_less_flt putmask_greater_equal_flt)
  also have "\<dots> = FltArr (map (map clamp_elem) a)"
    by (simp add: clamp_elem_def comp_def)
  finally show ?thesis .
qed

lemma clamp_low_high_int: "clamp_low_high (IntArr a) = IntArr (map (map clamp_spec) a)"
proof -
  have "clamp_low_high (IntArr a)
      = IntArr (map (map (\<lambda>n. if 7 \<le> n then 7 else n))
          (map (map (\<lambda>n. if n < 1 then 0 else n)) a))"
    by (simp only: clamp_low_high_def Let_def putmask_less_int putmask_greater_equal_int)
  also have "\<dots> = IntArr (map (map clamp_spec) a)"
    by (simp add: clamp_spec_def comp_def)
  finally show ?thesis .
qed

lemma mask_non_positive_flt:
  "mask_non_positive (FltArr a) = FltArr (map (map (\<lambda>x. if fl_lt (Fin 0) x then x else NaN)) a)"
  by (simp add: mask_non_positive_def map2_same_left)

lemma mask_non_positive_int:
  "mask_non_positive (IntArr a)
     = FltArr (map (map (\<lambda>n. if 0 < n then Fin (of_int (f64_of_int n)) else NaN)) a)"
  by (simp add: mask_non_positive_def map2_same_left)

lemma clamp_elem_idem: "clamp_elem (clamp_elem x) = clamp_elem x"
  by (cases x) (simp_all add: clamp_elem_def)

lemma clamp_spec_idem: "clamp_spec (clamp_spec n) = clamp_spec n"
  by (simp add: clamp_spec_def)

section \<open>The conversion to float64: where it is exact\<close>


lemma bitlen_lower: "0 < a \<Longrightarrow> 2 ^ (bitlen a - 1) \<le> a"
proof (induction a rule: bitlen.induct)
  case (1 a)
  show ?case
  proof (cases "a div 2 \<le> 0")
    case True
    then have "bitlen (a div 2) = 0" by (subst bitlen.simps) simp
    with 1(2) show ?thesis by (subst bitlen.simps) simp
  next
    case False
    with 1 have ih: "2 ^ (bitlen (a div 2) - 1) \<le> a div 2" by simp
    have pos: "0 < bitlen (a div 2)" using False by (subst bitlen.simps) simp
    have "bitlen a = Suc (bitlen (a div 2))" using 1(2) by (subst bitlen.simps) simp
    then have "(2::int) ^ (bitlen a - 1) = 2 * 2 ^ (bitlen (a div 2) - 1)"
      using pos by (cases "bitlen (a div 2)") simp_all
    also have "\<dots> \<le> 2 * (a div 2)" using ih by simp
    also have "\<dots> \<le> a" by simp
    finally show ?thesis .
  qed
qed


text \<open>A positive integer is converted to a positive float64.\<close>

lemma f64_of_int_pos:
  assumes "0 < n"
  shows "0 < f64_of_int n"
proof -
  let ?e = "bitlen n - 53"
  define q where "q = n div 2 ^ ?e"
  define q' where "q' = (if 2 ^ ?e < 2 * (n mod 2 ^ ?e) \<or> (2 * (n mod 2 ^ ?e) = 2 ^ ?e \<and> odd q)
      then q + 1 else q)"
  have "(2::int) ^ ?e \<le> 2 ^ (bitlen n - 1)" by (intro power_increasing) simp_all
  also have "\<dots> \<le> n" using assms by (rule bitlen_lower)
  finally have "2 ^ ?e \<le> n" .
  then have "1 \<le> q"
    unfolding q_def by (simp add: pos_imp_zdiv_pos_iff int_one_le_iff_zero_less)
  then have "0 < q'" unfolding q'_def by simp
  then have "0 < q' * 2 ^ ?e" by simp
  moreover have "f64_of_int n = q' * 2 ^ ?e"
    using assms by (simp add: f64_of_int_def Let_def q'_def q_def)
  ultimately show ?thesis by simp
qed


section \<open>The bucketizer\<close>








text \<open>
  C6. For each of the three policies and every raster (integer rasters, not-a-number and
  infinite elements included), treating the raster twice gives what treating it once
  gives.
\<close>

theorem bucketize_idempotent: "bucketize p (bucketize p a) = bucketize p a"
proof (cases p)
  case ClampLowHigh
  then show ?thesis
    by (cases a)
      (simp_all add: clamp_low_high_flt clamp_low_high_int comp_def clamp_elem_idem
        clamp_spec_idem)
next
  case MaskNonPositive
  show ?thesis
  proof (cases a)
    case (IntArr k)
    have "(\<lambda>n. if fl_lt (Fin 0) (if 0 < n then Fin (of_int (f64_of_int n)) else NaN)
                then if 0 < n then Fin (of_int (f64_of_int n)) else NaN else NaN)
        = (\<lambda>n. if 0 < n then Fin (of_int (f64_of_int n)) else NaN)"
      by (rule ext) (simp add: f64_of_int_pos)
    with MaskNonPositive IntArr show ?thesis
      by (simp add: mask_non_positive_int mask_non_positive_flt comp_def)
  next
    case (FltArr x)
    with MaskNonPositive show ?thesis
      by (simp add: mask_non_positive_flt comp_def)
  qed
next
  case Identity
  then show ?thesis by simp
qed

text \<open>
  C9. An element of the raster that is not-a-number is still not-a-number after the
  returns cell: both comparisons, \<open>NaN < 1\<close> and \<open>NaN >= 7\<close>, are false, so neither
  \<open>np.putmask\<close> call touches it. (Only a float raster has such an element.)
\<close>

theorem clamp_low_high_keeps_nan:
  assumes "i < length a" and "j < length (a ! i)" and "a ! i ! j = NaN"
  shows "(\<exists>b. clamp_low_high (FltArr a) = FltArr b \<and> b ! i ! j = NaN)
    \<and> \<not> fl_lt NaN (Fin 1) \<and> \<not> fl_le (Fin 7) NaN"
  using assms by (simp add: clamp_low_high_flt clamp_elem_def)

theorem clamp_low_high_keeps_nan_witness:
  "(1::nat) < length [[Fin 3, Fin 3, Fin 3], [Fin 0, NaN, Fin 9]]
   \<and> (1::nat) < length ([[Fin 3, Fin 3, Fin 3], [Fin 0, NaN, Fin 9]] ! 1)
   \<and> [[Fin 3, Fin 3, Fin 3], [Fin 0, NaN, Fin 9]] ! 1 ! 1 = NaN
   \<and> (\<exists>b. clamp_low_high (FltArr [[Fin 3, Fin 3, Fin 3], [Fin 0, NaN, Fin 9]]) = FltArr b
        \<and> b ! 1 ! 1 = NaN)"
  using clamp_low_high_keeps_nan [of 1 "[[Fin 3, Fin 3, Fin 3], [Fin 0, NaN, Fin 9]]" 1]
  by simp

section \<open>The cells as steps on the notebook\<close>

text \<open>The colormap cell on a single pair: the one position is \<open>0 / 0\<close>.\<close>

lemma single_pair_colormap:
  "build_colormap [((0, 1), (0, 0, 0, 0))]
     = Inr \<lparr>name = ''hag'', vals = [NaN], cols = [(Fin 0, Fin 0, Fin 0, Fin 0)]\<rparr>"
  by (simp add: build_colormap_def unzip_pairs_def build_nodes_def from_list_def fl_sub_def
      fl_of_sgn_def rescale_color_def to_rgba_ok_def channel_ok_def)

lemma returns_cell_eq:
  assumes "ds st = Some a" and "heap st a = Some r"
  shows "returns_cell st = Inr (st\<lparr>heap := (heap st)(a \<mapsto> clamp_low_high r)\<rparr>)"
  using assms by (simp add: returns_cell_def putmask_ds_def clamp_low_high_def Let_def)

lemma where_cell_eq:
  assumes "ds st = Some a" and "heap st a = Some r"
  shows "where_cell st = Inr (st\<lparr>heap := (heap st)(next_id st \<mapsto> mask_non_positive r),
      next_id := Suc (next_id st), ds := Some (next_id st)\<rparr>)"
  using assms by (simp add: where_cell_def mask_non_positive_def)

text \<open>
  C8, as amended. With \<open>ds\<close> bound to an array \<open>r\<close> (at an address in use, and these
  are below \<open>next_id\<close>), each policy runs without error and
  \<open>ds\<close> then names the treated raster. Under \<open>MaskNonPositive\<close> and \<open>Identity\<close> the array
  that was passed in still holds \<open>r\<close>; under \<open>ClampLowHigh\<close> that same array now holds the
  clamped values, because \<open>np.putmask\<close> writes into its first argument. No other array,
  and neither \<open>pairs\<close> nor \<open>cmap\<close>, is changed, and \<open>ds\<close> is bound anew only by the
  \<open>np.where\<close> cell, to the array it has made. The colormap cell changes neither \<open>pairs\<close>
  nor any array.
\<close>

theorem bucketize_frame:
  "(ds st = Some a \<and> heap st a = Some r \<and> a < next_id st \<longrightarrow>
      (\<exists>st' a'. run_bucketize p st = Inr st'
         \<and> ds st' = Some a' \<and> heap st' a' = Some (bucketize p r)
         \<and> heap st' a = Some (if p = ClampLowHigh then clamp_low_high r else r)
         \<and> (\<forall>b. b \<noteq> a \<and> b < next_id st \<longrightarrow> heap st' b = heap st b)
         \<and> pairs st' = pairs st \<and> cmap st' = cmap st
         \<and> ds st' = (if p = MaskNonPositive then Some (next_id st) else ds st)))
   \<and> (colormap_cell st = Inr st'' \<longrightarrow>
        pairs st'' = pairs st \<and> heap st'' = heap st \<and> ds st'' = ds st)"
proof (intro conjI impI)
  assume "ds st = Some a \<and> heap st a = Some r \<and> a < next_id st"
  then have d: "ds st = Some a" and h: "heap st a = Some r" and lt: "a < next_id st"
    by simp_all
  show "\<exists>st' a'. run_bucketize p st = Inr st'
         \<and> ds st' = Some a' \<and> heap st' a' = Some (bucketize p r)
         \<and> heap st' a = Some (if p = ClampLowHigh then clamp_low_high r else r)
         \<and> (\<forall>b. b \<noteq> a \<and> b < next_id st \<longrightarrow> heap st' b = heap st b)
         \<and> pairs st' = pairs st \<and> cmap st' = cmap st
         \<and> ds st' = (if p = MaskNonPositive then Some (next_id st) else ds st)"
  proof (cases p)
    case ClampLowHigh
    then show ?thesis using d h by (simp add: returns_cell_eq)
  next
    case MaskNonPositive
    then show ?thesis using d h lt by (simp add: where_cell_eq)
  next
    case Identity
    then show ?thesis using d h by simp
  qed
next
  assume "colormap_cell st = Inr st''"
  then show "pairs st'' = pairs st" and "heap st'' = heap st" and "ds st'' = ds st"
    by (auto simp: colormap_cell_def split: sum.splits)
qed

text \<open>
  The hypotheses hold after two rasters have been read into a fresh notebook, the second
  one with the row \<open>-1, 9\<close>. The \<open>np.where\<close> cell then leaves both arrays as they were and
  binds \<open>ds\<close> to a third array with the row \<open>NaN, 9\<close>. The colormap cell runs on a notebook
  with one pair and leaves the pair where it was.
\<close>

theorem bucketize_frame_witness:
  "ds (read_raster (FltArr [[Fin (- 1), Fin 9]]) (read_raster (IntArr [[2]]) (fresh_notebook [])))
     = Some 1
   \<and> heap (read_raster (FltArr [[Fin (- 1), Fin 9]])
            (read_raster (IntArr [[2]]) (fresh_notebook []))) 1
       = Some (FltArr [[Fin (- 1), Fin 9]])
   \<and> 1 < next_id (read_raster (FltArr [[Fin (- 1), Fin 9]])
                  (read_raster (IntArr [[2]]) (fresh_notebook [])))
   \<and> (\<exists>st'. run_bucketize MaskNonPositive
                (read_raster (FltArr [[Fin (- 1), Fin 9]])
                  (read_raster (IntArr [[2]]) (fresh_notebook [])))
               = Inr st'
         \<and> heap st' 1 = Some (FltArr [[Fin (- 1), Fin 9]]) \<and> heap st' 0 = Some (IntArr [[2]])
         \<and> ds st' = Some 2 \<and> heap st' 2 = Some (FltArr [[NaN, Fin 9]]))
   \<and> colormap_cell (fresh_notebook [((0, 1), (0, 0, 0, 0))])
       = Inr ((fresh_notebook [((0, 1), (0, 0, 0, 0))])
               \<lparr>cmap := Some \<lparr>name = ''hag'', vals = [NaN],
                                 cols = [(Fin 0, Fin 0, Fin 0, Fin 0)]\<rparr>\<rparr>)
   \<and> pairs ((fresh_notebook [((0, 1), (0, 0, 0, 0))])
               \<lparr>cmap := Some \<lparr>name = ''hag'', vals = [NaN],
                                 cols = [(Fin 0, Fin 0, Fin 0, Fin 0)]\<rparr>\<rparr>)
       = [((0, 1), (0, 0, 0, 0))]"
  using bucketize_frame
      [of "read_raster (FltArr [[Fin (- 1), Fin 9]])
             (read_raster (IntArr [[2]]) (fresh_notebook []))" 1
        "FltArr [[Fin (- 1), Fin 9]]" MaskNonPositive]
    bucketize_frame [of "fresh_notebook [((0, 1), (0, 0, 0, 0))]" 0 "IntArr []" Identity
      "(fresh_notebook [((0, 1), (0, 0, 0, 0))])
               \<lparr>cmap := Some \<lparr>name = ''hag'', vals = [NaN],
                                 cols = [(Fin 0, Fin 0, Fin 0, Fin 0)]\<rparr>\<rparr>"]
  by (simp add: read_raster_def fresh_notebook_def where_cell_eq mask_non_positive_flt
      colormap_cell_def single_pair_colormap)

text \<open>
  C8 as stated fails for the returns cell: the array that was read with the one row
  \<open>0.5, 9\<close> holds the row \<open>0, 7\<close> after the two \<open>np.putmask\<close> calls.
\<close>

theorem putmask_overwrites_input:
  "raster_at 0 (Inr (read_raster (FltArr [[Fin 0.5, Fin 9]]) (fresh_notebook [])))
     = Some (FltArr [[Fin 0.5, Fin 9]])
   \<and> raster_at 0 (run_bucketize ClampLowHigh
                   (read_raster (FltArr [[Fin 0.5, Fin 9]]) (fresh_notebook [])))
     = Some (FltArr [[Fin 0, Fin 7]])"
  by (simp add: raster_at_def read_raster_def fresh_notebook_def returns_cell_def putmask_ds_def)

section \<open>The control positions in closed form\<close>

lemma fold_fl_min_Fin: "fold fl_min (map Fin xs) (Fin x) = Fin (fold min xs x)"
  by (induction xs arbitrary: x) (simp_all add: fl_min_def min_def)

lemma fold_fl_max_Fin: "fold fl_max (map Fin xs) (Fin x) = Fin (fold max xs x)"
  by (induction xs arbitrary: x) (simp_all add: fl_max_def max_def)

lemma np_min_Fin:
  assumes "xs \<noteq> []"
  shows "np_min (map Fin xs) = Inr (Fin (Min (set xs)))"
proof (cases xs)
  case Nil
  with assms show ?thesis by simp
next
  case (Cons y ys)
  have "fold min ys y = Min (set (y # ys))"
    by (rule Min.set_eq_fold [symmetric])
  with Cons show ?thesis by (simp add: fold_fl_min_Fin)
qed

lemma np_max_Fin:
  assumes "xs \<noteq> []"
  shows "np_max (map Fin xs) = Inr (Fin (Max (set xs)))"
proof (cases xs)
  case Nil
  with assms show ?thesis by simp
next
  case (Cons y ys)
  have "fold max ys y = Max (set (y # ys))"
    by (rule Max.set_eq_fold [symmetric])
  with Cons show ?thesis by (simp add: fold_fl_max_Fin)
qed

lemma Max_shift: "xs \<noteq> [] \<Longrightarrow> Max (set (map (\<lambda>u. u - c) xs)) = Max (set xs) - (c::rat)"
proof -
  assume "xs \<noteq> []"
  then have "Max ((\<lambda>u. u - c) ` set xs) = Max (set xs) - c"
    by (intro mono_Max_commute [symmetric]) (auto simp: mono_def)
  then show ?thesis by simp
qed

lemma build_nodes_eq:
  assumes "xs \<noteq> []"
  shows "build_nodes xs = Inr (map (node_of (map snd xs)) (map snd xs))"
proof -
  let ?us = "map snd xs"
  have ne: "?us \<noteq> []" using assms by simp
  have n0: "map (\<lambda>x. Fin (snd x)) xs = map Fin ?us" by simp
  have n1: "map (\<lambda>x. fl_sub x (fl_abs (Fin (Min (set ?us))))) (map Fin ?us)
      = map Fin (map (\<lambda>u. u - \<bar>Min (set ?us)\<bar>) ?us)"
    by (simp add: fl_sub_def)
  have mx: "np_max (map Fin (map (\<lambda>u. u - \<bar>Min (set ?us)\<bar>) ?us))
      = Inr (Fin (Max (set ?us) - \<bar>Min (set ?us)\<bar>))"
    using ne Max_shift [OF ne] by (subst np_max_Fin) simp_all
  show ?thesis
    unfolding build_nodes_def Let_def n0 np_min_Fin [OF ne] sum.case n1 mx
    by (simp add: node_of_def comp_def)
qed

lemma build_nodes_length: "build_nodes xs = Inr ns \<Longrightarrow> length ns = length xs"
proof (cases "xs = []")
  case True
  then show "build_nodes xs = Inr ns \<Longrightarrow> length ns = length xs"
    by (simp add: build_nodes_def)
next
  case False
  then show "build_nodes xs = Inr ns \<Longrightarrow> length ns = length xs"
    by (auto simp: build_nodes_eq)
qed

text \<open>
  Where the smallest upper bound is not negative and the bounds are not all equal, the
  cell computes the min-max normalization, whose values lie in \<open>[0, 1]\<close> and keep the
  order of the bounds.
\<close>

lemma build_nodes_nonneg_min:
  assumes "xs \<noteq> []" and "0 \<le> Min (set (map snd xs))"
    and "Min (set (map snd xs)) < Max (set (map snd xs))"
  shows "build_nodes xs = Inr (map Fin (normalize_spec (map snd xs)))"
  using assms by (simp add: build_nodes_eq node_of_def normalize_spec_def comp_def)

lemma normalize_spec_unit_interval:
  assumes "Min (set bs) < Max (set bs)" and "n \<in> set (normalize_spec bs)"
  shows "0 \<le> n \<and> n \<le> 1"
proof -
  from assms(2) obtain b where b: "b \<in> set bs"
    and n: "n = (b - Min (set bs)) / (Max (set bs) - Min (set bs))"
    by (auto simp: normalize_spec_def)
  have "Min (set bs) \<le> b" and "b \<le> Max (set bs)" using b by simp_all
  with assms(1) show ?thesis unfolding n by (simp add: divide_simps)
qed

lemma normalize_spec_sorted:
  assumes "Min (set bs) < Max (set bs)" and "sorted bs"
  shows "sorted (normalize_spec bs)"
proof -
  have "mono (\<lambda>b. (b - Min (set bs)) / (Max (set bs) - Min (set bs)))"
    using assms(1) by (auto simp: mono_def divide_right_mono)
  then show ?thesis
    unfolding normalize_spec_def using assms(2)
    by (simp add: sorted_map mono_def sorted_wrt_iff_nth_less)
qed

text \<open>
  C1, as amended. The control positions are computed from the upper bound of each range
  (\<open>x[1]\<close>, the second element), one position per pair in input order; two inputs with
  the same upper bounds get the same positions, whatever their lower bounds are.
\<close>

theorem nodes_from_upper_bounds:
  "(map snd xs = map snd ys \<longrightarrow> build_nodes xs = build_nodes ys)
   \<and> (xs \<noteq> [] \<longrightarrow> build_nodes xs = Inr (map (\<lambda>x. node_of (map snd xs) (snd x)) xs))"
proof (intro conjI impI)
  assume "map snd xs = map snd ys"
  then have "map Fin (map snd xs) = map Fin (map snd ys)" by simp
  then have "map (\<lambda>x. Fin (snd x)) xs = map (\<lambda>x. Fin (snd x)) ys"
    by (simp add: comp_def)
  then show "build_nodes xs = build_nodes ys" by (simp add: build_nodes_def)
next
  assume "xs \<noteq> []"
  then show "build_nodes xs = Inr (map (\<lambda>x. node_of (map snd xs) (snd x)) xs)"
    by (simp add: build_nodes_eq comp_def)
qed

theorem nodes_from_upper_bounds_witness:
  "map snd [(0, 1), (1, 2), (2, 4)] = map snd ([(- 900, 1), (1.5, 2), (3, 4)] :: interval list)
   \<and> [(0, 1), (1, 2), (2, 4)] \<noteq> ([] :: interval list)
   \<and> build_nodes [(0, 1), (1, 2), (2, 4)] = build_nodes [(- 900, 1), (1.5, 2), (3, 4)]
   \<and> build_nodes [(0, 1), (1, 2), (2, 4)] = Inr [Fin 0, Fin (1 / 3), Fin 1]"
  using nodes_from_upper_bounds [of "[(0, 1), (1, 2), (2, 4)]" "[(- 900, 1), (1.5, 2), (3, 4)]"]
  by (auto simp: node_of_def)

text \<open>
  C1 as stated fails: two inputs with the same lower bounds 0, 1, 2 and different upper
  bounds get different control positions.
\<close>

theorem nodes_lower_bounds_counterexample:
  "map fst [(0, 1), (1, 2), (2, 3)] = map fst ([(0, 1), (1, 2), (2, 4)] :: interval list)
   \<and> build_nodes [(0, 1), (1, 2), (2, 3)] \<noteq> build_nodes [(0, 1), (1, 2), (2, 4)]"
  by (simp add: build_nodes_def fl_min_def fl_max_def fl_sub_def)

text \<open>
  C2. The cell subtracts the absolute value of the minimum, not the minimum. For the
  bounds -1 and 3 it yields the positions -1 and 1, where the min-max normalization of the
  specification yields 0 and 1.
\<close>

theorem build_nodes_negative_min:
  "build_nodes [(- 5, - 1), (- 1, 3)] = Inr [Fin (- 1), Fin 1]
   \<and> normalize_spec [- 1, 3] = [0, 1]"
  by (simp add: build_nodes_def fl_min_def fl_max_def fl_sub_def normalize_spec_def)

section \<open>The colormap that the cell builds\<close>

lemma channel_ok_rescale: "channel_ok (Fin (of_int r / 255)) \<longleftrightarrow> 0 \<le> r \<and> r \<le> 255"
  by (auto simp: channel_ok_def not_less divide_simps)

lemma to_rgba_ok_rescale: "to_rgba_ok (rescale_color c) = color_ok c"
  by (cases c) (auto simp: to_rgba_ok_def rescale_color_def color_ok_def channel_ok_rescale)

lemma build_colormap_eq:
  assumes "ps \<noteq> []"
  shows "build_colormap ps =
    (if list_all color_ok (map snd ps)
     then Inr \<lparr>name = ''hag'',
               vals = map (node_of (map (snd \<circ> fst) ps)) (map (snd \<circ> fst) ps),
               cols = map rescale_color (map snd ps)\<rparr>
     else Inl ValueError)"
proof -
  have ne: "map fst ps \<noteq> []" using assms by simp
  show ?thesis
    using assms
    by (simp add: build_colormap_def unzip_pairs_def build_nodes_eq [OF ne] from_list_def
        comp_def map_fst_zip map_snd_zip list_all_iff to_rgba_ok_rescale)
qed

lemma node_of_all_equal:
  assumes "us \<noteq> []" and "\<forall>u\<in>set us. u = c"
  shows "map (node_of us) us = replicate (length us) (if 0 \<le> c then NaN else Fin 1)"
proof -
  have "set us = {c}" using assms by (cases us) auto
  then have nc: "node_of us c = (if 0 \<le> c then NaN else Fin 1)"
    by (simp add: node_of_def fl_of_sgn_def)
  have "node_of us u = (if 0 \<le> c then NaN else Fin 1)" if "u \<in> set us" for u
  proof -
    from that assms(2) have "u = c" by blast
    then show ?thesis using nc by (simp only:)
  qed
  then have "map (node_of us) us = map (\<lambda>_. if 0 \<le> c then NaN else Fin 1) us"
    by (intro map_cong) simp_all
  then show ?thesis by (simp only: map_replicate_const)
qed

lemma cmap_call_bad_start:
  assumes "vals cm = replicate n v" and "0 < n" and "v = NaN \<or> v = Fin 1"
  shows "cmap_call cm x = Inl ValueError"
proof -
  have "hd (vals cm) = v" using assms(1,2) by (cases n) simp_all
  with assms(3) have "fl_ne (hd (vals cm)) (Fin 0)" by auto
  then show ?thesis by (simp add: cmap_call_def points_ok_def)
qed

text \<open>
  C3, as amended (Matplotlib up to 3.10, where the positions are checked at the first
  call). The cell has no error of its own and checks nothing itself. Building raises,
  with Python's \<open>ValueError\<close>, exactly for an empty pair list (the unpacking of
  \<open>zip(*pairs)\<close>) and for a color channel outside \<open>[0, 255]\<close> (Matplotlib's color
  conversion); every other input gives a colormap with one control point per pair. With
  a single pair, and with any number of pairs whose upper bounds are all equal, every
  evaluation of that colormap raises \<open>ValueError\<close>; where the common bound is not
  negative, the control positions are all not-a-number, the result of \<open>0 / 0\<close>.
\<close>

theorem build_colormap_failures:
  "(if ps = [] \<or> \<not> list_all color_ok (map snd ps)
    then build_colormap ps = Inl ValueError
    else (\<exists>cm. build_colormap ps = Inr cm \<and> length (vals cm) = length ps
            \<and> cols cm = map rescale_color (map snd ps)))
   \<and> (ps \<noteq> [] \<and> list_all color_ok (map snd ps) \<and> (\<forall>p\<in>set ps. snd (fst p) = c) \<longrightarrow>
        (\<exists>cm. build_colormap ps = Inr cm
           \<and> (0 \<le> c \<longrightarrow> vals cm = replicate (length ps) NaN)
           \<and> (\<forall>x. cmap_call cm x = Inl ValueError)))"
proof (cases "ps = []")
  case True
  then show ?thesis by (simp add: build_colormap_def unzip_pairs_def)
next
  case False
  note ne = this
  show ?thesis
  proof (cases "list_all color_ok (map snd ps)")
    case bad: False
    with ne show ?thesis by (simp add: build_colormap_eq)
  next
    case good: True
    let ?us = "map (snd \<circ> fst) ps"
    let ?cm = "\<lparr>name = ''hag'', vals = map (node_of ?us) ?us,
                cols = map rescale_color (map snd ps)\<rparr>"
    have b: "build_colormap ps = Inr ?cm"
      using ne good by (simp add: build_colormap_eq)
    have "\<exists>cm. build_colormap ps = Inr cm
           \<and> (0 \<le> c \<longrightarrow> vals cm = replicate (length ps) NaN)
           \<and> (\<forall>x. cmap_call cm x = Inl ValueError)"
      if eq: "\<forall>p\<in>set ps. snd (fst p) = c"
    proof -
      have "?us \<noteq> []" and "\<forall>u\<in>set ?us. u = c" using ne eq by simp_all
      then have v: "vals ?cm = replicate (length ps) (if 0 \<le> c then NaN else Fin 1)"
        using node_of_all_equal [of ?us c] by simp
      have "cmap_call ?cm x = Inl ValueError" for x
        by (rule cmap_call_bad_start [OF v]) (use ne in auto)
      moreover have "0 \<le> c \<longrightarrow> vals ?cm = replicate (length ps) NaN"
        using v by simp
      ultimately show ?thesis using b by blast
    qed
    then have second:
      "ps \<noteq> [] \<and> list_all color_ok (map snd ps) \<and> (\<forall>p\<in>set ps. snd (fst p) = c) \<longrightarrow>
        (\<exists>cm. build_colormap ps = Inr cm
           \<and> (0 \<le> c \<longrightarrow> vals cm = replicate (length ps) NaN)
           \<and> (\<forall>x. cmap_call cm x = Inl ValueError))"
      by blast
    have first:
      "(if ps = [] \<or> \<not> list_all color_ok (map snd ps)
        then build_colormap ps = Inl ValueError
        else (\<exists>cm. build_colormap ps = Inr cm \<and> length (vals cm) = length ps
                \<and> cols cm = map rescale_color (map snd ps)))"
      using b good ne by simp
    from first second show ?thesis by (rule conjI)
  qed
qed

text \<open>
  Both sides at concrete inputs: the empty list raises, and the single pair
  \<open>((0, 1), (0, 0, 0, 0))\<close>, whose upper bound 1 is not negative, gives a colormap with
  the one position not-a-number that raises on every evaluation.
\<close>

theorem build_colormap_failures_witness:
  "build_colormap [] = Inl ValueError
   \<and> [((0, 1), (0, 0, 0, 0))] \<noteq> ([] :: pair list)
   \<and> list_all color_ok (map snd [((0, 1), (0, 0, 0, 0))])
   \<and> list_all (\<lambda>p. snd (fst p) = (1::rat)) [((0, 1), (0, 0, 0, 0))]
   \<and> (0::rat) \<le> 1
   \<and> (\<exists>cm. build_colormap [((0, 1), (0, 0, 0, 0))] = Inr cm \<and> vals cm = [NaN]
        \<and> (\<forall>x. cmap_call cm x = Inl ValueError))"
  using build_colormap_failures [of "[]" 0]
    build_colormap_failures [of "[((0, 1), (0, 0, 0, 0))]" 1]
  by (auto simp: color_ok_def)

text \<open>
  C3 as stated fails: with one pair, fewer than the two that the claim asks for, the
  cell returns a colormap and raises nothing.
\<close>

theorem build_colormap_single_pair:
  "length [((0, 1), (0, 0, 0, 0)) :: pair] < 2
   \<and> build_colormap [((0, 1), (0, 0, 0, 0))]
       = Inr \<lparr>name = ''hag'', vals = [NaN], cols = [(Fin 0, Fin 0, Fin 0, Fin 0)]\<rparr>"
  by (simp add: single_pair_colormap)

section \<open>Evaluating the colormap at and beyond its end points\<close>

lemma upper_bounds_increasing:
  "list_all (\<lambda>x. fst x < snd x) xs \<Longrightarrow> ranges_ascending xs \<Longrightarrow> sorted_wrt (<) (map snd xs)"
proof (induction xs rule: ranges_ascending.induct)
  case (1 a b xs)
  then have ab: "snd a < snd b" and rest: "sorted_wrt (<) (map snd (b # xs))" by auto
  have "snd a < u" if "u \<in> set (map snd xs)" for u
  proof -
    from rest that have "snd b < u" by auto
    with ab show ?thesis by simp
  qed
  with ab rest show ?case by auto
qed simp_all

lemma Min_hd_sorted:
  assumes "sorted_wrt (<) (us :: rat list)" and "us \<noteq> []"
  shows "Min (set us) = hd us"
proof (cases us)
  case Nil
  with assms(2) show ?thesis by simp
next
  case (Cons u vs)
  with assms(1) have "\<forall>v\<in>set vs. u \<le> v" by (auto simp: less_imp_le)
  then have "Min (insert u (set vs)) = u"
    by (intro Min_eqI) auto
  with Cons show ?thesis by simp
qed

lemma sorted_le_last: "sorted (us :: rat list) \<Longrightarrow> u \<in> set us \<Longrightarrow> u \<le> last us"
  by (induction us) (auto)

lemma Max_last_sorted:
  assumes "sorted_wrt (<) (us :: rat list)" and "us \<noteq> []"
  shows "Max (set us) = last us"
proof -
  have s: "sorted us" using assms(1) by (rule strict_sorted_imp_sorted)
  have "\<And>u. u \<in> set us \<Longrightarrow> u \<le> last us" using s by (rule sorted_le_last)
  moreover have "last us \<in> set us" using assms(2) by (rule last_in_set)
  ultimately show ?thesis by (intro Max_eqI) simp_all
qed

lemma hd_less_last:
  assumes "sorted_wrt (<) (us :: rat list)" and "2 \<le> length us"
  shows "hd us < last us"
proof -
  have "0 < length us - 1" and "length us - 1 < length us" using assms(2) by simp_all
  with assms(1) have "us ! 0 < us ! (length us - 1)"
    by (rule sorted_wrt_nth_less)
  moreover have "us \<noteq> []" using assms(2) by auto
  ultimately show ?thesis by (simp add: hd_conv_nth last_conv_nth)
qed

lemma no_decrease_sorted: "sorted ns \<Longrightarrow> \<not> any_decrease (map Fin ns)"
proof (induction ns rule: induct_list012)
  case (3 x y zs)
  then show ?case by (simp add: fl_sub_def)
qed simp_all

lemma normalize_spec_hd:
  "bs \<noteq> [] \<Longrightarrow> Min (set bs) = hd bs \<Longrightarrow> hd (normalize_spec bs) = 0"
  by (simp add: normalize_spec_def hd_map)

lemma normalize_spec_last:
  "bs \<noteq> [] \<Longrightarrow> Max (set bs) = last bs \<Longrightarrow> Min (set bs) < Max (set bs)
   \<Longrightarrow> last (normalize_spec bs) = 1"
  by (simp add: normalize_spec_def last_map)

lemma fl_clip_rescale:
  "0 \<le> r \<Longrightarrow> r \<le> 255 \<Longrightarrow> fl_clip (Fin (of_int r / 255)) = Fin (of_int r / 255)"
  by (simp add: fl_clip_def divide_simps)

lemma lut_row_first:
  assumes "cols cm = map rescale_color cs" and "cs \<noteq> []" and "color_ok (hd cs)"
  shows "lut_row cm 0 = rescale_color (hd cs)"
  using assms
  by (cases cs; cases "hd cs")
     (auto simp: lut_row_def lut_entry_def rescale_color_def color_ok_def fl_clip_rescale)

lemma lut_row_last:
  assumes "cols cm = map rescale_color cs" and "cs \<noteq> []" and "color_ok (last cs)"
  shows "lut_row cm 255 = rescale_color (last cs)"
  using assms
  by (cases "last cs")
     (auto simp: lut_row_def lut_entry_def rescale_color_def color_ok_def fl_clip_rescale
       last_map)

lemma cmap_call_at_0: "points_ok (vals cm) \<Longrightarrow> cmap_call cm (Fin 0) = Inr (lut_row cm 0)"
  by (simp add: cmap_call_def)

lemma cmap_call_at_1: "points_ok (vals cm) \<Longrightarrow> cmap_call cm (Fin 1) = Inr (lut_row cm 255)"
  by (simp add: cmap_call_def)

lemma cmap_call_below:
  "points_ok (vals cm) \<Longrightarrow> fl_lt x (Fin 0) \<Longrightarrow> cmap_call cm x = Inr (lut_row cm 0)"
  by (cases x) (simp_all add: cmap_call_def fl_of_sgn_def mult_less_0_iff)

lemma cmap_call_above:
  "points_ok (vals cm) \<Longrightarrow> fl_lt (Fin 1) x \<Longrightarrow> cmap_call cm x = Inr (lut_row cm 255)"
  by (cases x) (auto simp: cmap_call_def fl_of_sgn_def)

text \<open>
  Where the first upper bound is not negative, a valid input of at least two pairs gives
  a colormap whose positions run from 0 to 1, which returns the first color at 0 and
  below and the last color at 1 and above.
\<close>

lemma colormap_endpoints:
  assumes v: "valid_pairs ps" and n: "2 \<le> length ps" and z: "0 \<le> snd (fst (hd ps))"
  shows "\<exists>cm. build_colormap ps = Inr cm
     \<and> hd (vals cm) = Fin 0 \<and> last (vals cm) = Fin 1
     \<and> cmap_call cm (Fin 0) = Inr (rescale_color (snd (hd ps)))
     \<and> cmap_call cm (Fin 1) = Inr (rescale_color (snd (last ps)))
     \<and> (\<forall>x. fl_lt x (Fin 0) \<longrightarrow> cmap_call cm x = Inr (rescale_color (snd (hd ps))))
     \<and> (\<forall>x. fl_lt (Fin 1) x \<longrightarrow> cmap_call cm x = Inr (rescale_color (snd (last ps))))"
proof -
  let ?us = "map (snd \<circ> fst) ps"
  let ?cs = "map snd ps"
  let ?cm = "\<lparr>name = ''hag'', vals = map (node_of ?us) ?us, cols = map rescale_color ?cs\<rparr>"
  have ne: "ps \<noteq> []" and une: "?us \<noteq> []" using n by auto
  have good: "list_all color_ok ?cs" using v by (simp add: valid_pairs_def)
  have b: "build_colormap ps = Inr ?cm" using ne good by (simp add: build_colormap_eq)
  have inc: "sorted_wrt (<) ?us"
    using v upper_bounds_increasing [of "map fst ps"]
    by (simp add: valid_pairs_def list_all_iff comp_def)
  have mn: "Min (set ?us) = hd ?us" by (rule Min_hd_sorted [OF inc une])
  have mx: "Max (set ?us) = last ?us" by (rule Max_last_sorted [OF inc une])
  have lt: "Min (set ?us) < Max (set ?us)"
    unfolding mn mx using n by (intro hd_less_last [OF inc]) simp
  have z': "0 \<le> Min (set ?us)" unfolding mn using z ne by (simp add: hd_map)
  have "build_nodes (map fst ps) = Inr (map Fin (normalize_spec ?us))"
    using build_nodes_nonneg_min [of "map fst ps"] ne z' lt by simp
  moreover have "build_nodes (map fst ps) = Inr (map (node_of ?us) ?us)"
    using build_nodes_eq [of "map fst ps"] ne by simp
  ultimately have vs: "vals ?cm = map Fin (normalize_spec ?us)" by simp
  have nne: "normalize_spec ?us \<noteq> []" using une by (simp add: normalize_spec_def)
  have h: "hd (vals ?cm) = Fin 0"
    unfolding vs using normalize_spec_hd [OF une mn] nne by (simp add: hd_map)
  have l: "last (vals ?cm) = Fin 1"
    unfolding vs using normalize_spec_last [OF une mx lt] nne by (simp add: last_map)
  have "sorted ?us" using inc by (simp add: strict_sorted_imp_sorted)
  then have "\<not> any_decrease (vals ?cm)"
    unfolding vs by (intro no_decrease_sorted normalize_spec_sorted [OF lt])
  with h l nne have ok: "points_ok (vals ?cm)"
    unfolding points_ok_def vs by simp
  have c0: "color_ok (hd ?cs)" and c1: "color_ok (last ?cs)"
    using good ne by (simp_all add: list_all_iff hd_map last_map)
  have r0: "lut_row ?cm 0 = rescale_color (snd (hd ps))"
    using lut_row_first [of ?cm ?cs] c0 ne by (simp add: hd_map)
  have r1: "lut_row ?cm 255 = rescale_color (snd (last ps))"
    using lut_row_last [of ?cm ?cs] c1 ne by (simp add: last_map)
  show ?thesis
    using b h l cmap_call_at_0 [OF ok] cmap_call_at_1 [OF ok] cmap_call_below [OF ok]
      cmap_call_above [OF ok] unfolding r0 r1 by blast
qed

text \<open>
  The notebook's own pairs are such an input: their colormap returns the transparent
  black of the first pair at 0 and below, and the dark blue of the last pair at 1 and
  above.
\<close>

lemma hag_pairs_valid: "valid_pairs hag_pairs \<and> 2 \<le> length hag_pairs \<and> 0 \<le> snd (fst (hd hag_pairs))"
  by (simp add: hag_pairs_def valid_pairs_def color_ok_def)

lemma hag_colormap_endpoints:
  "\<exists>cm. build_colormap hag_pairs = Inr cm
     \<and> cmap_call cm (Fin 0) = Inr (Fin 0, Fin 0, Fin 0, Fin 0)
     \<and> cmap_call cm (Fin 1) = Inr (Fin (8 / 255), Fin (48 / 255), Fin (107 / 255), Fin 1)
     \<and> cmap_call cm (Fin (- 3)) = Inr (Fin 0, Fin 0, Fin 0, Fin 0)
     \<and> cmap_call cm (Fin 50) = Inr (Fin (8 / 255), Fin (48 / 255), Fin (107 / 255), Fin 1)"
proof -
  have h: "snd (hd hag_pairs) = (0, 0, 0, 0)" and l: "snd (last hag_pairs) = (8, 48, 107, 255)"
    by (simp_all add: hag_pairs_def)
  from hag_pairs_valid colormap_endpoints [of hag_pairs]
  obtain cm where cm: "build_colormap hag_pairs = Inr cm"
    and c0: "cmap_call cm (Fin 0) = Inr (rescale_color (snd (hd hag_pairs)))"
    and c1: "cmap_call cm (Fin 1) = Inr (rescale_color (snd (last hag_pairs)))"
    and lo: "\<forall>x. fl_lt x (Fin 0) \<longrightarrow> cmap_call cm x = Inr (rescale_color (snd (hd hag_pairs)))"
    and hi: "\<forall>x. fl_lt (Fin 1) x \<longrightarrow> cmap_call cm x = Inr (rescale_color (snd (last hag_pairs)))"
    by blast
  have "cmap_call cm (Fin (- 3)) = Inr (rescale_color (snd (hd hag_pairs)))"
    using lo by simp
  moreover have "cmap_call cm (Fin 50) = Inr (rescale_color (snd (last hag_pairs)))"
    using hi by simp
  ultimately show ?thesis
    using cm c0 c1 unfolding h l by (auto simp: rescale_color_def)
qed

lemma negative_first_bound_valid:
  "valid_pairs [((- 5, - 1), (0, 0, 0, 0)), ((- 1, 3), (255, 255, 255, 255))]"
  by (simp add: valid_pairs_def color_ok_def)

lemma negative_first_bound_nodes:
  "build_nodes [(- 5, - 1), (- 1, 3)] = Inr [Fin (- 1), Fin 1]"
  by (simp add: build_nodes_def fl_sub_def fl_min_def fl_max_def)

lemma negative_first_bound_colormap:
  "build_colormap [((- 5, - 1), (0, 0, 0, 0)), ((- 1, 3), (255, 255, 255, 255))]
      = Inr \<lparr>name = ''hag'', vals = [Fin (- 1), Fin 1],
              cols = [(Fin 0, Fin 0, Fin 0, Fin 0), (Fin 1, Fin 1, Fin 1, Fin 1)]\<rparr>"
  by (simp add: build_colormap_def unzip_pairs_def negative_first_bound_nodes from_list_def
      rescale_color_def to_rgba_ok_def channel_ok_def)

lemma negative_first_bound_call:
  "cmap_call \<lparr>name = ''hag'', vals = [Fin (- 1), Fin 1],
              cols = [(Fin 0, Fin 0, Fin 0, Fin 0), (Fin 1, Fin 1, Fin 1, Fin 1)]\<rparr> x
      = Inl ValueError"
  by (simp add: cmap_call_def points_ok_def)

text \<open>
  C7. The two pairs \<open>((-5, -1), black)\<close> and \<open>((-1, 3), white)\<close> are a valid, sorted
  input. The cell gives them the control positions -1 and 1, and the colormap returns no
  color at either position: every evaluation raises \<open>ValueError\<close>, because the positions
  do not start at 0.
\<close>

theorem colormap_negative_first_bound:
  "valid_pairs [((- 5, - 1), (0, 0, 0, 0)), ((- 1, 3), (255, 255, 255, 255))]
   \<and> build_colormap [((- 5, - 1), (0, 0, 0, 0)), ((- 1, 3), (255, 255, 255, 255))]
      = Inr \<lparr>name = ''hag'', vals = [Fin (- 1), Fin 1],
              cols = [(Fin 0, Fin 0, Fin 0, Fin 0), (Fin 1, Fin 1, Fin 1, Fin 1)]\<rparr>
   \<and> cmap_call \<lparr>name = ''hag'', vals = [Fin (- 1), Fin 1],
              cols = [(Fin 0, Fin 0, Fin 0, Fin 0), (Fin 1, Fin 1, Fin 1, Fin 1)]\<rparr> (Fin (- 1))
      = Inl ValueError
   \<and> cmap_call \<lparr>name = ''hag'', vals = [Fin (- 1), Fin 1],
              cols = [(Fin 0, Fin 0, Fin 0, Fin 0), (Fin 1, Fin 1, Fin 1, Fin 1)]\<rparr> (Fin 1)
      = Inl ValueError"
  by (simp only: negative_first_bound_valid negative_first_bound_colormap
      negative_first_bound_call simp_thms)

end
